theory Spec2Isabelle
  imports Complex_Main "HOL-Library.AList"
begin

section \<open>JavaScript values and library functions used by the serverless handlers\<close>

text \<open>
  A JavaScript number as the handlers use it: an integer, or \<open>NaN\<close>. The numbers that
  occur (request counts, millisecond clock readings, the parsed \<open>limit\<close>) are integers;
  \<open>parseInt\<close> of a digit string too long for a double is modelled by its exact
  integer, which the clamp to 100 or to 1 treats exactly as it treats the rounded double
  or \<open>Infinity\<close>.
\<close>

datatype js_num = Num int | NaN

text \<open>\<open>Math.max\<close> and \<open>Math.min\<close> return \<open>NaN\<close> as soon as one argument is \<open>NaN\<close>.\<close>

fun Math_max :: "js_num \<Rightarrow> js_num \<Rightarrow> js_num" where
  "Math_max (Num a) (Num b) = Num (max a b)"
| "Math_max _ _ = NaN"

fun Math_min :: "js_num \<Rightarrow> js_num \<Rightarrow> js_num" where
  "Math_min (Num a) (Num b) = Num (min a b)"
| "Math_min _ _ = NaN"

text \<open>
  \<open>parseInt(string)\<close> with no radix (ECMAScript 19.2.5): skip leading white space, read
  an optional sign, switch to radix 16 after a \<open>0x\<close> or \<open>0X\<close> prefix, take the longest
  prefix of digits of the radix; no digit at all gives \<open>NaN\<close>. Characters are the code
  units below 256.
\<close>

definition isStrWhiteSpaceChar :: "char \<Rightarrow> bool" where
  "isStrWhiteSpaceChar c \<longleftrightarrow>
     (let n = (of_char c :: nat) in n = 9 \<or> n = 10 \<or> n = 11 \<or> n = 12 \<or> n = 13 \<or> n = 32 \<or> n = 160)"

definition digitValue :: "char \<Rightarrow> nat option" where
  "digitValue c =
     (let n = (of_char c :: nat) in
      if 48 \<le> n \<and> n \<le> 57 then Some (n - 48)
      else if 97 \<le> n \<and> n \<le> 122 then Some (n - 87)
      else if 65 \<le> n \<and> n \<le> 90 then Some (n - 55)
      else None)"

definition radixDigit :: "nat \<Rightarrow> char \<Rightarrow> nat option" where
  "radixDigit R c =
     (case digitValue c of None \<Rightarrow> None | Some d \<Rightarrow> if d < R then Some d else None)"

fun parseDigits :: "nat \<Rightarrow> string \<Rightarrow> nat \<Rightarrow> nat" where
  "parseDigits R [] acc = acc"
| "parseDigits R (c # cs) acc =
     (case radixDigit R c of None \<Rightarrow> acc | Some d \<Rightarrow> parseDigits R cs (acc * R + d))"

definition parseInt :: "string \<Rightarrow> js_num" where
  "parseInt inputString =
     (let S = dropWhile isStrWhiteSpaceChar inputString;
          sign = (if take 1 S = ''-'' then - 1 else (1::int));
          S1 = (if take 1 S = ''+'' \<or> take 1 S = ''-'' then drop 1 S else S);
          hex = (take 2 S1 = ''0x'' \<or> take 2 S1 = ''0X'');
          R = (if hex then 16 else 10);
          S2 = (if hex then drop 2 S1 else S1);
          Z = takeWhile (\<lambda>c. radixDigit R c \<noteq> None) S2
      in if Z = [] then NaN else Num (sign * int (parseDigits R Z 0)))"

text \<open>
  The handler's line
  \<^verbatim>\<open>const limit = Math.min(Math.max(parseInt(url.searchParams.get('limit') || '10'), 1), 100);\<close>
  where \<open>searchParams.get\<close> answers \<open>null\<close> (here \<open>None\<close>) for an absent parameter, and
  \<open>||\<close> replaces \<open>null\<close> and the empty string by \<open>'10'\<close>.
\<close>

definition limit_or_default :: "string option \<Rightarrow> string" where
  "limit_or_default p = (case p of None \<Rightarrow> ''10'' | Some s \<Rightarrow> if s = [] then ''10'' else s)"

definition effective_limit :: "string option \<Rightarrow> js_num" where
  "effective_limit p = Math_min (Math_max (parseInt (limit_or_default p)) (Num 1)) (Num 100)"


text \<open>\<open>String(n)\<close> for an integer \<open>n\<close>: its decimal digits.\<close>

fun digits_of_nat :: "nat \<Rightarrow> string" where
  "digits_of_nat n =
     (if n < 10 then [char_of (48 + n)]
      else digits_of_nat (n div 10) @ [char_of (48 + n mod 10)])"

declare digits_of_nat.simps [simp del]

definition String_of_int :: "int \<Rightarrow> string" where
  "String_of_int i = (if i < 0 then CHR ''-'' # digits_of_nat (nat (- i)) else digits_of_nat (nat i))"

text \<open>
  A thrown value: an \<open>Error\<close> object with its message and (optional) stack, or any other
  value. The handlers read it through \<open>error instanceof Error ? error.message : "Unknown error"\<close>
  and \<open>error instanceof Error ? error.stack : undefined\<close>.
\<close>

datatype thrown = Error_object string "string option" | Other_value

datatype json = JString string | JNumber js_num | JUndefined

type_synonym json_obj = "(string \<times> json) list"

definition error_message :: "thrown \<Rightarrow> string" where
  "error_message e = (case e of Error_object m s \<Rightarrow> m | Other_value \<Rightarrow> ''Unknown error'')"

definition error_stack :: "thrown \<Rightarrow> json" where
  "error_stack e =
     (case e of Error_object m s \<Rightarrow> (case s of Some t \<Rightarrow> JString t | None \<Rightarrow> JUndefined)
      | Other_value \<Rightarrow> JUndefined)"

section \<open>The rate limiter\<close>

text \<open>
  \<open>rateLimitMap\<close> is a JavaScript \<open>Map\<close> from the client address to a
  \<open>{ count, resetTime }\<close> object. It is modelled by an association list in insertion
  order: \<open>get\<close> is \<open>map_of\<close>, \<open>size\<close> is \<open>length\<close>, \<open>set\<close> is \<open>AList.update\<close>
  (an existing key keeps its place, a new one goes last), \<open>delete\<close> is \<open>AList.delete\<close>.
  A \<open>Map\<close> holds each key once: \<open>wf_rate_map\<close>.
\<close>

record rate_record =
  count :: int
  resetTime :: int

type_synonym rate_map = "(string \<times> rate_record) list"

definition wf_rate_map :: "rate_map \<Rightarrow> bool" where
  "wf_rate_map m \<longleftrightarrow> distinct (map fst m)"

text \<open>
  The cleanup loop
  \<^verbatim>\<open>for (const [key, value] of rateLimitMap.entries()) { if (value.resetTime < cutoff) rateLimitMap.delete(key); }\<close>
  visits the entries of the map and deletes as it goes.
\<close>

fun sweep :: "int \<Rightarrow> rate_map \<Rightarrow> rate_map \<Rightarrow> rate_map" where
  "sweep cutoff [] m = m"
| "sweep cutoff ((key, v) # entries) m =
     sweep cutoff entries (if resetTime v < cutoff then AList.delete key m else m)"

text \<open>
  \<open>checkRateLimit(ip, maxRequests = 60, windowMs = 60000)\<close>, with the clock reading
  \<open>Date.now()\<close> as the argument \<open>now\<close>; it returns the answer and the map after the call.
  \<open>record\<close> is read before the cleanup, and \<open>record.count++\<close> changes the object that
  was read: the map sees the increment where it still holds that object (\<open>AList.map_entry\<close>
  leaves a map without the key as it is).
\<close>

definition checkRateLimit :: "string \<Rightarrow> int \<Rightarrow> int \<Rightarrow> int \<Rightarrow> rate_map \<Rightarrow> bool \<times> rate_map" where
  "checkRateLimit ip maxRequests windowMs now m =
     (let record = map_of m ip;
          m1 = (if length m > 10000 then sweep (now - windowMs) m m else m)
      in case record of
           None \<Rightarrow> (True, AList.update ip \<lparr>count = 1, resetTime = now + windowMs\<rparr> m1)
         | Some r \<Rightarrow>
             if now > resetTime r
             then (True, AList.update ip \<lparr>count = 1, resetTime = now + windowMs\<rparr> m1)
             else if count r < maxRequests
             then (True, AList.map_entry ip (\<lambda>_. r\<lparr>count := count r + 1\<rparr>) m1)
             else (False, m1))"

text \<open>
  The map after the cleanup step of \<open>checkRateLimit\<close> (the binding \<open>m1\<close> there).
\<close>

definition swept :: "int \<Rightarrow> rate_map \<Rightarrow> rate_map" where
  "swept cutoff m = (if length m > 10000 then sweep cutoff m m else m)"

text \<open>
  The module serving calls of \<open>checkRateLimit\<close> one after the other, each for a client
  address and with a clock reading; \<open>decisions ip\<close> collects the answers given to \<open>ip\<close>.
\<close>

fun decisions :: "string \<Rightarrow> (string \<times> int) list \<Rightarrow> rate_map \<Rightarrow> bool list" where
  "decisions ip [] m = []"
| "decisions ip ((i, now) # rest) m =
     (let (allowed, m') = checkRateLimit i 60 60000 now m
      in (if i = ip then [allowed] else []) @ decisions ip rest m')"

text \<open>
  A record that a call at time \<open>t\<close> or later replaces (\<open>now > record.resetTime\<close>), or no
  record at all; two states of one client's entry that calls from time \<open>t\<close> on cannot
  tell apart.
\<close>

definition expired_at :: "int \<Rightarrow> rate_record option \<Rightarrow> bool" where
  "expired_at t a = (case a of None \<Rightarrow> True | Some r \<Rightarrow> resetTime r < t)"

definition same_window :: "int \<Rightarrow> rate_record option \<Rightarrow> rate_record option \<Rightarrow> bool" where
  "same_window t a b \<longleftrightarrow> a = b \<or> (expired_at t a \<and> expired_at t b)"

section \<open>The two serverless handlers\<close>

text \<open>
  What a handler reads of the request and of its context: the method, the value of
  \<open>url.searchParams.get('limit')\<close> (\<open>None\<close> for \<open>null\<close>) and \<open>context.ip\<close>
  (\<open>None\<close> when undefined).
\<close>

record request =
  req_method :: string
  limit_param :: "string option"
  context_ip :: "string option"

text \<open>
  What a handler reads of its environment during one request: the clock in
  \<open>checkRateLimit\<close>, the clock when the rate-limit headers are written, the text of
  \<open>new Date().toISOString()\<close>, the text of \<open>responseTime.toFixed(2)\<close>, and what
  \<open>neon()\<close> does if it is called: it returns a query function or throws. \<open>neon()\<close> is
  the only call of the \<open>try\<close> blocks that can throw (a \<open>Request\<close> always carries a
  valid absolute URL).
\<close>

datatype neon_sql = NeonQueryFunction

record env =
  date_now :: int
  date_now_headers :: int
  iso_timestamp :: string
  response_time :: string
  neon_call :: "thrown + neon_sql"

record response =
  status :: nat
  headers :: "(string \<times> string) list"
  body :: json_obj

datatype console_call = console_error string json_obj

record server_state =
  cachedSql :: "neon_sql option"
  rateLimitMap :: rate_map

definition getSql :: "env \<Rightarrow> server_state \<Rightarrow> thrown + (neon_sql \<times> server_state)" where
  "getSql e st =
     (case cachedSql st of
        Some sql \<Rightarrow> Inr (sql, st)
      | None \<Rightarrow>
          (case neon_call e of
             Inl err \<Rightarrow> Inl err
           | Inr sql \<Rightarrow> Inr (sql, st\<lparr>cachedSql := Some sql\<rparr>)))"

definition method_not_allowed :: response where
  "method_not_allowed =
     \<lparr>status = 405,
      headers = [(''Content-Type'', ''application/json''), (''Allow'', ''GET'')],
      body = [(''error'', JString ''Method not allowed'')]\<rparr>"

definition rate_limit_exceeded :: "env \<Rightarrow> response" where
  "rate_limit_exceeded e =
     \<lparr>status = 429,
      headers = [(''Content-Type'', ''application/json''),
                 (''Retry-After'', ''60''),
                 (''X-RateLimit-Limit'', ''60''),
                 (''X-RateLimit-Remaining'', ''0''),
                 (''X-RateLimit-Reset'', String_of_int (date_now_headers e div 1000 + 60))],
      body = [(''error'', JString ''Rate limit exceeded''),
              (''message'', JString ''Too many requests. Please try again later.'')]\<rparr>"

definition connection_failed :: "thrown \<Rightarrow> env \<Rightarrow> response" where
  "connection_failed err e =
     \<lparr>status = 500,
      headers = [(''Content-Type'', ''application/json'')],
      body = [(''error'', JString ''Database connection failed''),
              (''message'', JString (error_message err)),
              (''timestamp'', JString (iso_timestamp e))]\<rparr>"

definition clientIp_of :: "request \<Rightarrow> string" where
  "clientIp_of req = (case context_ip req of None \<Rightarrow> ''unknown'' | Some i \<Rightarrow> if i = [] then ''unknown'' else i)"

text \<open>
  The handler with the rate limiter (the default export of the file that defines
  \<open>checkRateLimit\<close>). It returns the response, the calls of \<open>console.error\<close> and the
  state of the module after the request.
\<close>

definition rate_limited_handler ::
  "request \<Rightarrow> env \<Rightarrow> server_state \<Rightarrow> response \<times> console_call list \<times> server_state" where
  "rate_limited_handler req e st =
     (if req_method req \<noteq> ''GET'' then (method_not_allowed, [], st)
      else
        let clientIp = clientIp_of req;
            (allowed, m') = checkRateLimit clientIp 60 60000 (date_now e) (rateLimitMap st);
            st1 = st\<lparr>rateLimitMap := m'\<rparr>
        in if \<not> allowed then (rate_limit_exceeded e, [], st1)
           else
             (case getSql e st1 of
                Inr (sql, st2) \<Rightarrow>
                  let limit = effective_limit (limit_param req);
                      remaining = (case map_of (rateLimitMap st2) clientIp of
                                     Some r \<Rightarrow> max (60 - count r) 0 | None \<Rightarrow> 59)
                  in (\<lparr>status = 200,
                       headers = [(''Content-Type'', ''application/json''),
                                  (''Cache-Control'', ''public, max-age=60''),
                                  (''X-RateLimit-Limit'', ''60''),
                                  (''X-RateLimit-Remaining'', String_of_int remaining),
                                  (''X-RateLimit-Reset'', String_of_int (date_now_headers e div 1000 + 60))],
                       body = [(''message'', JString ''Database connection available''),
                               (''timestamp'', JString (iso_timestamp e)),
                               (''responseTime'', JString (response_time e @ ''ms'')),
                               (''limit'', JNumber limit)]\<rparr>, [], st2)
              | Inl err \<Rightarrow>
                  (connection_failed err e,
                   [console_error ''Database error:''
                      [(''message'', JString (error_message err)),
                       (''stack'', error_stack err),
                       (''timestamp'', JString (iso_timestamp e)),
                       (''responseTime'', JString (response_time e @ ''ms'')),
                       (''ip'', JString clientIp)]],
                   st1)))"

text \<open>
  The handler of \<open>netlify/functions/db-test.ts\<close>: it reads neither the request nor the
  context and calls \<open>neon()\<close> on every request.
\<close>

definition db_test_handler :: "request \<Rightarrow> env \<Rightarrow> response \<times> console_call list" where
  "db_test_handler req e =
     (case neon_call e of
        Inr sql \<Rightarrow>
          (\<lparr>status = 200,
            headers = [(''Content-Type'', ''application/json''),
                       (''Cache-Control'', ''public, max-age=60'')],
            body = [(''message'', JString ''Database connection available''),
                    (''timestamp'', JString (iso_timestamp e)),
                    (''responseTime'', JString (response_time e @ ''ms''))]\<rparr>, [])
      | Inl err \<Rightarrow>
          (connection_failed err e,
           [console_error ''Database error:''
              [(''message'', JString (error_message err)),
               (''stack'', error_stack err),
               (''timestamp'', JString (iso_timestamp e)),
               (''responseTime'', JString (response_time e @ ''ms''))]]))"

text \<open>
  The module serves its requests one after the other, each with its own environment;
  \<open>serve\<close> collects the responses.
\<close>

fun serve :: "(request \<times> env) list \<Rightarrow> server_state \<Rightarrow> response list \<times> server_state" where
  "serve [] st = ([], st)"
| "serve ((req, e) # rest) st =
     (let (resp, logs, st1) = rate_limited_handler req e st;
          (resps, st2) = serve rest st1
      in (resp # resps, st2))"


text \<open>The responses given to the requests of one client, in order.\<close>

definition responses_to :: "string \<Rightarrow> (request \<times> env) list \<Rightarrow> server_state \<Rightarrow> response list" where
  "responses_to ip rs st =
     map snd (filter (\<lambda>(q, resp). clientIp_of (fst q) = ip) (zip rs (fst (serve rs st))))"

text \<open>Inputs for the examples: a request, an environment, and a map above the cleanup threshold.\<close>

definition example_request :: request where
  "example_request = \<lparr>req_method = ''GET'', limit_param = None, context_ip = Some ''203.0.113.7''\<rparr>"

definition example_env :: "int \<Rightarrow> env" where
  "example_env t =
     \<lparr>date_now = t, date_now_headers = t, iso_timestamp = ''2025-01-01T00:00:00.000Z'',
      response_time = ''0.10'', neon_call = Inr NeonQueryFunction\<rparr>"

definition example_big_map :: rate_map where
  "example_big_map =
     (''old'', \<lparr>count = 60, resetTime = 5\<rparr>) #
     (''live'', \<lparr>count = 3, resetTime = 100500\<rparr>) #
     map (\<lambda>i. (replicate (Suc i) CHR ''x'', \<lparr>count = 1, resetTime = 0\<rparr>)) [0..<10000]"

section \<open>The dashboard component\<close>

text \<open>
  A coin as \<open>App\<close> holds it, and the list \<open>mockCoins\<close> that the effect hands to
  \<open>setCoins\<close>. The two numeric fields carry the decimal literals of the source as
  rationals; nothing here computes with them.
\<close>

record coin =
  coin_id :: string
  symbol :: string
  coin_name :: string
  current_price :: rat
  price_change_percentage_24h :: rat

definition mockCoins :: "coin list" where
  "mockCoins =
     [\<lparr>coin_id = ''bitcoin'', symbol = ''BTC'', coin_name = ''Bitcoin'',
       current_price = 45000, price_change_percentage_24h = 5 / 2\<rparr>,
      \<lparr>coin_id = ''ethereum'', symbol = ''ETH'', coin_name = ''Ethereum'',
       current_price = 3000, price_change_percentage_24h = - (6 / 5)\<rparr>,
      \<lparr>coin_id = ''cardano'', symbol = ''ADA'', coin_name = ''Cardano'',
       current_price = 1 / 2, price_change_percentage_24h = 57 / 10\<rparr>]"

text \<open>
  The effect of \<open>App\<close>. \<open>fetchCoins\<close> is the body of the \<open>async\<close> function: the
  placeholder for the API call either completes or throws, then the state is updated
  behind the guard \<open>if (!abortController.signal.aborted)\<close>. The result is the list of
  state setters the body calls, in order. JavaScript runs the body to completion: no
  other code runs between the guard and the setters.
\<close>

datatype set_state = setCoins "coin list" | setLoading bool | setError string

definition fetchCoins :: "bool \<Rightarrow> thrown option \<Rightarrow> set_state list" where
  "fetchCoins aborted failure =
     (case failure of
        None \<Rightarrow> if \<not> aborted then [setCoins mockCoins, setLoading False] else []
      | Some err \<Rightarrow>
          if \<not> aborted
          then [setError (case err of Error_object m s \<Rightarrow> m | Other_value \<Rightarrow> ''Failed to fetch coins''),
                setLoading False]
          else [])"

text \<open>
  The life of one effect instance, from \<open>new AbortController()\<close> on: the body of
  \<open>fetchCoins\<close> runs (in the source at once, inside the effect; after an \<open>await\<close> it
  would run later), and the cleanup function calls \<open>abortController.abort()\<close>.
  \<open>lifecycle\<close> gives, for each event, the state setters called during it; its second
  argument is \<open>signal.aborted\<close>.
\<close>

datatype lifecycle_event = fetchCoins_runs "thrown option" | cleanup_runs

fun lifecycle :: "lifecycle_event list \<Rightarrow> bool \<Rightarrow> set_state list list" where
  "lifecycle [] aborted = []"
| "lifecycle (fetchCoins_runs failure # evs) aborted = fetchCoins aborted failure # lifecycle evs aborted"
| "lifecycle (cleanup_runs # evs) aborted = [] # lifecycle evs True"

section \<open>The database migration\<close>

text \<open>
  The statements of the migration file
  \<open>supabase/migrations/20251210210000_create_coins_schema.sql\<close>, in the order of the
  file, and what PostgreSQL does with each of them. A
  \<open>PRIMARY KEY\<close> or \<open>UNIQUE\<close> constraint is enforced by a unique index that
  PostgreSQL creates with the table; an index made by \<open>CREATE INDEX\<close> is marked
  \<open>Declared\<close>, one made for a constraint \<open>Constraint_index\<close>. Tables and indexes share
  one name space (all names are in the schema \<open>public\<close>, left out here). A table
  carries the names of its columns, its constraints and the functions, other than
  built-in ones, that its column defaults call; an index, a policy, a trigger or a
  comment carries the table it is on, and an index or an insert the columns it names
  (for an index, those of its key and of its \<open>WHERE\<close> clause). A policy carries the
  functions its \<open>USING\<close> or \<open>WITH CHECK\<close> expression calls, a trigger the function it
  executes: PostgreSQL resolves them when it runs the statement and fails with
  \<open>undefined_function\<close> where one does not exist. \<open>CREATE EXTENSION\<close> needs the
  extension to be installed on the server and adds the functions the extension provides.
\<close>

datatype table_constraint =
    PRIMARY_KEY string
  | UNIQUE_column string
  | UNIQUE_constraint string "string list"
  | CHECK_constraint string
  | REFERENCES_table string string

datatype statement =
    CREATE_EXTENSION_IF_NOT_EXISTS string
  | CREATE_TABLE_IF_NOT_EXISTS string "string list" "table_constraint list" "string list"
  | CREATE_INDEX_IF_NOT_EXISTS string string "string list"
  | ENABLE_ROW_LEVEL_SECURITY string
  | CREATE_POLICY string string "string list"
  | CREATE_OR_REPLACE_FUNCTION string
  | CREATE_TRIGGER string string string
  | INSERT_ON_CONFLICT_DO_NOTHING string "string list"
  | COMMENT_ON_TABLE string
  | COMMENT_ON_COLUMN string string

datatype index_origin = Declared | Constraint_index

record table_info =
  columns :: "string list"
  row_security :: bool

record database =
  available_extensions :: "string list"
  db_extensions :: "string list"
  db_tables :: "(string \<times> table_info) list"
  db_indexes :: "(string \<times> string \<times> index_origin) list"
  db_policies :: "(string \<times> string) list"
  db_functions :: "string list"
  db_triggers :: "(string \<times> string) list"

datatype sql_error =
    undefined_table string
  | undefined_column string
  | undefined_function string
  | undefined_extension string
  | duplicate_object string

text \<open>
  A PostgreSQL database with nothing in it, on a server that has the extension
  \<open>uuid-ossp\<close> installed; and the database of a new Supabase project, the target of the
  files under \<open>supabase/migrations\<close>: it has no table, index, policy or trigger in the
  schema \<open>public\<close> either, and Supabase's schema \<open>auth\<close> gives it the function
  \<open>auth.role()\<close>.
\<close>

definition empty_database :: database where
  "empty_database =
     \<lparr>available_extensions = [''uuid-ossp''], db_extensions = [], db_tables = [],
      db_indexes = [], db_policies = [], db_functions = [], db_triggers = []\<rparr>"

definition fresh_supabase_database :: database where
  "fresh_supabase_database = empty_database\<lparr>db_functions := [''auth.role'']\<rparr>"

text \<open>The functions of an extension that the migration uses.\<close>

definition extension_functions :: "string \<Rightarrow> string list" where
  "extension_functions e = (if e = ''uuid-ossp'' then [''uuid_generate_v4''] else [])"

definition relation_exists :: "database \<Rightarrow> string \<Rightarrow> bool" where
  "relation_exists db n \<longleftrightarrow> n \<in> set (map fst (db_tables db)) \<or> n \<in> set (map fst (db_indexes db))"

text \<open>The indexes PostgreSQL creates for the constraints of a new table, with its names for them.\<close>

fun constraint_indexes :: "string \<Rightarrow> table_constraint list \<Rightarrow> (string \<times> string \<times> index_origin) list" where
  "constraint_indexes t [] = []"
| "constraint_indexes t (PRIMARY_KEY c # cs) = (t @ ''_pkey'', t, Constraint_index) # constraint_indexes t cs"
| "constraint_indexes t (UNIQUE_column c # cs) =
     (t @ ''_'' @ c @ ''_key'', t, Constraint_index) # constraint_indexes t cs"
| "constraint_indexes t (UNIQUE_constraint n cols # cs) = (n, t, Constraint_index) # constraint_indexes t cs"
| "constraint_indexes t (CHECK_constraint n # cs) = constraint_indexes t cs"
| "constraint_indexes t (REFERENCES_table c r # cs) = constraint_indexes t cs"

fun referenced_tables :: "table_constraint list \<Rightarrow> string list" where
  "referenced_tables [] = []"
| "referenced_tables (REFERENCES_table c r # cs) = r # referenced_tables cs"
| "referenced_tables (_ # cs) = referenced_tables cs"

definition apply_statement :: "statement \<Rightarrow> database \<Rightarrow> sql_error + database" where
  "apply_statement st db =
     (case st of
        CREATE_EXTENSION_IF_NOT_EXISTS e \<Rightarrow>
          if e \<in> set (db_extensions db) then Inr db
          else if e \<notin> set (available_extensions db) then Inl (undefined_extension e)
          else Inr (db\<lparr>db_extensions := db_extensions db @ [e],
                       db_functions := db_functions db @ extension_functions e\<rparr>)
      | CREATE_TABLE_IF_NOT_EXISTS t cols cons defaults \<Rightarrow>
          if relation_exists db t then Inr db
          else (case filter (\<lambda>r. r \<notin> set (map fst (db_tables db))) (referenced_tables cons) of
                  r # _ \<Rightarrow> Inl (undefined_table r)
                | [] \<Rightarrow>
                    (case filter (\<lambda>f. f \<notin> set (db_functions db)) defaults of
                       f # _ \<Rightarrow> Inl (undefined_function f)
                     | [] \<Rightarrow>
                         Inr (db\<lparr>db_tables := db_tables db @
                                    [(t, \<lparr>columns = cols, row_security = False\<rparr>)],
                                 db_indexes := db_indexes db @ constraint_indexes t cons\<rparr>)))
      | CREATE_INDEX_IF_NOT_EXISTS n t cols \<Rightarrow>
          if relation_exists db n then Inr db
          else (case map_of (db_tables db) t of
                  None \<Rightarrow> Inl (undefined_table t)
                | Some info \<Rightarrow>
                    (case filter (\<lambda>c. c \<notin> set (columns info)) cols of
                       c # _ \<Rightarrow> Inl (undefined_column c)
                     | [] \<Rightarrow> Inr (db\<lparr>db_indexes := db_indexes db @ [(n, t, Declared)]\<rparr>)))
      | ENABLE_ROW_LEVEL_SECURITY t \<Rightarrow>
          (case map_of (db_tables db) t of
             None \<Rightarrow> Inl (undefined_table t)
           | Some info \<Rightarrow>
               Inr (db\<lparr>db_tables := AList.update t (info\<lparr>row_security := True\<rparr>) (db_tables db)\<rparr>))
      | CREATE_POLICY n t calls \<Rightarrow>
          if t \<notin> set (map fst (db_tables db)) then Inl (undefined_table t)
          else if (n, t) \<in> set (db_policies db) then Inl (duplicate_object n)
          else (case filter (\<lambda>f. f \<notin> set (db_functions db)) calls of
                  f # _ \<Rightarrow> Inl (undefined_function f)
                | [] \<Rightarrow> Inr (db\<lparr>db_policies := db_policies db @ [(n, t)]\<rparr>))
      | CREATE_OR_REPLACE_FUNCTION f \<Rightarrow>
          Inr (if f \<in> set (db_functions db) then db else db\<lparr>db_functions := db_functions db @ [f]\<rparr>)
      | CREATE_TRIGGER n t f \<Rightarrow>
          if t \<notin> set (map fst (db_tables db)) then Inl (undefined_table t)
          else if (n, t) \<in> set (db_triggers db) then Inl (duplicate_object n)
          else if f \<notin> set (db_functions db) then Inl (undefined_function f)
          else Inr (db\<lparr>db_triggers := db_triggers db @ [(n, t)]\<rparr>)
      | INSERT_ON_CONFLICT_DO_NOTHING t cols \<Rightarrow>
          (case map_of (db_tables db) t of
             None \<Rightarrow> Inl (undefined_table t)
           | Some info \<Rightarrow>
               (case filter (\<lambda>c. c \<notin> set (columns info)) cols of
                  c # _ \<Rightarrow> Inl (undefined_column c)
                | [] \<Rightarrow> Inr db))
      | COMMENT_ON_TABLE t \<Rightarrow>
          if t \<in> set (map fst (db_tables db)) then Inr db else Inl (undefined_table t)
      | COMMENT_ON_COLUMN t c \<Rightarrow>
          (case map_of (db_tables db) t of
             None \<Rightarrow> Inl (undefined_table t)
           | Some info \<Rightarrow> if c \<in> set (columns info) then Inr db else Inl (undefined_column c)))"

fun apply_migration :: "statement list \<Rightarrow> database \<Rightarrow> sql_error + database" where
  "apply_migration [] db = Inr db"
| "apply_migration (st # sts) db =
     (case apply_statement st db of Inl err \<Rightarrow> Inl err | Inr db' \<Rightarrow> apply_migration sts db')"

definition coins_table :: statement where
  "coins_table =
     CREATE_TABLE_IF_NOT_EXISTS ''coins''
       [''id'', ''symbol'', ''name'', ''current_price'', ''market_cap'', ''volume_24h'',
        ''price_change_24h'', ''price_change_percentage_24h'', ''price_change_7d'',
        ''price_change_percentage_7d'', ''all_time_high'', ''all_time_high_date'',
        ''all_time_low'', ''all_time_low_date'', ''description'', ''website_url'',
        ''image_url'', ''sentiment_score'', ''ai_index_value'', ''last_ai_prediction'',
        ''is_active'', ''last_updated'', ''created_at'']
       [PRIMARY_KEY ''id'', UNIQUE_column ''symbol'',
        CHECK_constraint ''positive_price'', CHECK_constraint ''positive_market_cap'',
        CHECK_constraint ''positive_volume'', CHECK_constraint ''valid_sentiment'']
       [''uuid_generate_v4'']"

definition coin_price_history_table :: statement where
  "coin_price_history_table =
     CREATE_TABLE_IF_NOT_EXISTS ''coin_price_history''
       [''id'', ''coin_id'', ''timestamp'', ''open'', ''high'', ''low'', ''close'', ''volume'',
        ''ma_7'', ''ma_25'', ''ma_99'', ''ema_12'', ''ema_26'', ''rsi'', ''macd'',
        ''macd_signal'', ''macd_histogram'', ''created_at'']
       [PRIMARY_KEY ''id'', REFERENCES_table ''coin_id'' ''coins'',
        CHECK_constraint ''positive_ohlc'', CHECK_constraint ''valid_high_low'',
        CHECK_constraint ''valid_open'', CHECK_constraint ''valid_close'',
        CHECK_constraint ''valid_rsi'', CHECK_constraint ''positive_volume_history'',
        UNIQUE_constraint ''unique_coin_timestamp'' [''coin_id'', ''timestamp'']]
       [''uuid_generate_v4'']"

definition coin_news_table :: statement where
  "coin_news_table =
     CREATE_TABLE_IF_NOT_EXISTS ''coin_news''
       [''id'', ''coin_id'', ''title'', ''content'', ''source'', ''url'', ''author'',
        ''sentiment_score'', ''sentiment_label'', ''published_at'', ''created_at'']
       [PRIMARY_KEY ''id'', REFERENCES_table ''coin_id'' ''coins'',
        CHECK_constraint ''valid_news_sentiment'', CHECK_constraint ''valid_url'']
       [''uuid_generate_v4'']"

definition migration :: "statement list" where
  "migration =
     [CREATE_EXTENSION_IF_NOT_EXISTS ''uuid-ossp'',
      coins_table,
      CREATE_INDEX_IF_NOT_EXISTS ''idx_coins_symbol'' ''coins'' [''symbol''],
      CREATE_INDEX_IF_NOT_EXISTS ''idx_coins_market_cap'' ''coins'' [''market_cap'', ''is_active''],
      CREATE_INDEX_IF_NOT_EXISTS ''idx_coins_volume'' ''coins'' [''volume_24h'', ''is_active''],
      CREATE_INDEX_IF_NOT_EXISTS ''idx_coins_last_updated'' ''coins'' [''last_updated''],
      CREATE_INDEX_IF_NOT_EXISTS ''idx_coins_active'' ''coins'' [''is_active''],
      coin_price_history_table,
      CREATE_INDEX_IF_NOT_EXISTS ''idx_price_history_coin_id'' ''coin_price_history'' [''coin_id''],
      CREATE_INDEX_IF_NOT_EXISTS ''idx_price_history_timestamp'' ''coin_price_history'' [''timestamp''],
      CREATE_INDEX_IF_NOT_EXISTS ''idx_price_history_coin_timestamp'' ''coin_price_history''
        [''coin_id'', ''timestamp''],
      coin_news_table,
      CREATE_INDEX_IF_NOT_EXISTS ''idx_news_coin_id'' ''coin_news'' [''coin_id''],
      CREATE_INDEX_IF_NOT_EXISTS ''idx_news_published'' ''coin_news'' [''published_at''],
      CREATE_INDEX_IF_NOT_EXISTS ''idx_news_sentiment'' ''coin_news'' [''sentiment_score''],
      ENABLE_ROW_LEVEL_SECURITY ''coins'',
      ENABLE_ROW_LEVEL_SECURITY ''coin_price_history'',
      ENABLE_ROW_LEVEL_SECURITY ''coin_news'',
      CREATE_POLICY ''Enable read access for all users'' ''coins'' [],
      CREATE_POLICY ''Enable read access for all users'' ''coin_price_history'' [],
      CREATE_POLICY ''Enable read access for all users'' ''coin_news'' [],
      CREATE_POLICY ''Enable insert for authenticated users only'' ''coins'' [''auth.role''],
      CREATE_POLICY ''Enable update for authenticated users only'' ''coins'' [''auth.role''],
      CREATE_POLICY ''Enable insert for authenticated users only'' ''coin_price_history'' [''auth.role''],
      CREATE_POLICY ''Enable update for authenticated users only'' ''coin_price_history'' [''auth.role''],
      CREATE_POLICY ''Enable insert for authenticated users only'' ''coin_news'' [''auth.role''],
      CREATE_POLICY ''Enable update for authenticated users only'' ''coin_news'' [''auth.role''],
      CREATE_OR_REPLACE_FUNCTION ''update_updated_at_column'',
      CREATE_TRIGGER ''update_coins_updated_at'' ''coins'' ''update_updated_at_column'',
      INSERT_ON_CONFLICT_DO_NOTHING ''coins'' [''symbol'', ''name'', ''description''],
      COMMENT_ON_TABLE ''coins'',
      COMMENT_ON_TABLE ''coin_price_history'',
      COMMENT_ON_TABLE ''coin_news'',
      COMMENT_ON_COLUMN ''coins'' ''sentiment_score'',
      COMMENT_ON_COLUMN ''coins'' ''ai_index_value'']"

text \<open>
  What a database holds: its tables, its indexes, and among them the indexes that
  \<open>CREATE INDEX\<close> statements made (the indexes the repository's documentation lists and
  its script \<open>validate_schema.sh\<close> counts) and those that enforce constraints; and the
  tables with row-level security enabled.
\<close>

definition table_names :: "database \<Rightarrow> string list" where
  "table_names db = map fst (db_tables db)"

definition index_names :: "database \<Rightarrow> string list" where
  "index_names db = map fst (db_indexes db)"

definition declared_index_names :: "database \<Rightarrow> string list" where
  "declared_index_names db = map fst (filter (\<lambda>(n, t, origin). origin = Declared) (db_indexes db))"

definition constraint_index_names :: "database \<Rightarrow> string list" where
  "constraint_index_names db =
     map fst (filter (\<lambda>(n, t, origin). origin = Constraint_index) (db_indexes db))"

definition rls_tables :: "database \<Rightarrow> string list" where
  "rls_tables db = map fst (filter (\<lambda>(t, info). row_security info) (db_tables db))"

section \<open>Properties of the rate limiter\<close>

text \<open>
  The cleanup loop, read through \<open>map_of\<close>: it removes the keys of the visited entries
  whose \<open>resetTime\<close> is below the cutoff, and keeps the keys of the map distinct.
\<close>

lemma map_of_sweep:
  "map_of (sweep cutoff es m) k =
     (if \<exists>v. (k, v) \<in> set es \<and> resetTime v < cutoff then None else map_of m k)"
proof (induction es arbitrary: m)
  case Nil
  show ?case by simp
next
  case (Cons e es)
  obtain key v where e: "e = (key, v)" by (cases e)
  show ?case unfolding e by (auto simp: Cons.IH AList.delete_conv')
qed

lemma wf_sweep: "wf_rate_map m \<Longrightarrow> wf_rate_map (sweep cutoff es m)"
proof (induction es arbitrary: m)
  case Nil
  then show ?case by simp
next
  case (Cons e es)
  obtain key v where e: "e = (key, v)" by (cases e)
  from Cons.prems have "wf_rate_map (AList.delete key m)"
    by (simp add: wf_rate_map_def AList.distinct_delete)
  with Cons show ?case unfolding e by simp
qed

lemma map_of_sweep_self:
  assumes "wf_rate_map m"
  shows "map_of (sweep cutoff m m) k =
           (case map_of m k of None \<Rightarrow> None
            | Some r \<Rightarrow> if resetTime r < cutoff then None else Some r)"
proof -
  have "(\<exists>v. (k, v) \<in> set m \<and> resetTime v < cutoff) \<longleftrightarrow>
        (\<exists>v. map_of m k = Some v \<and> resetTime v < cutoff)"
    using assms by (simp add: wf_rate_map_def)
  then show ?thesis
    by (auto simp: map_of_sweep split: option.splits)
qed

lemma wf_swept: "wf_rate_map m \<Longrightarrow> wf_rate_map (swept cutoff m)"
  by (simp add: swept_def wf_sweep)

lemma map_of_swept:
  "wf_rate_map m \<Longrightarrow> map_of (swept cutoff m) k =
     (if length m > 10000
      then (case map_of m k of None \<Rightarrow> None
            | Some r \<Rightarrow> if resetTime r < cutoff then None else Some r)
      else map_of m k)"
  by (simp add: swept_def map_of_sweep_self)

lemma checkRateLimit_swept:
  "checkRateLimit ip maxRequests windowMs now m =
     (case map_of m ip of
        None \<Rightarrow> (True, AList.update ip \<lparr>count = 1, resetTime = now + windowMs\<rparr> (swept (now - windowMs) m))
      | Some r \<Rightarrow>
          if now > resetTime r
          then (True, AList.update ip \<lparr>count = 1, resetTime = now + windowMs\<rparr> (swept (now - windowMs) m))
          else if count r < maxRequests
          then (True, AList.map_entry ip (\<lambda>_. r\<lparr>count := count r + 1\<rparr>) (swept (now - windowMs) m))
          else (False, swept (now - windowMs) m))"
  by (simp add: checkRateLimit_def swept_def Let_def split: option.splits)

lemma checkRateLimit_fst:
  "fst (checkRateLimit ip maxRequests windowMs now m) =
     (case map_of m ip of None \<Rightarrow> True | Some r \<Rightarrow> now > resetTime r \<or> count r < maxRequests)"
  by (simp add: checkRateLimit_swept split: option.splits)

lemma wf_checkRateLimit:
  "wf_rate_map m \<Longrightarrow> wf_rate_map (snd (checkRateLimit ip maxRequests windowMs now m))"
  using wf_swept [of m "now - windowMs"]
  by (auto simp: checkRateLimit_swept wf_rate_map_def AList.distinct_update AList.distinct_map_entry
      split: option.splits)

lemma checkRateLimit_other:
  assumes "wf_rate_map m" and "k \<noteq> ip"
  shows "map_of (snd (checkRateLimit ip maxRequests windowMs now m)) k =
           (if length m > 10000
            then (case map_of m k of None \<Rightarrow> None
                  | Some r \<Rightarrow> if resetTime r < now - windowMs then None else Some r)
            else map_of m k)"
  using assms
  by (simp add: checkRateLimit_swept AList.update_conv' AList.map_of_map_entry map_of_swept
      split: option.splits)

lemma checkRateLimit_own:
  assumes "wf_rate_map m" and "0 \<le> windowMs"
  shows "map_of (snd (checkRateLimit ip maxRequests windowMs now m)) ip =
           (case map_of m ip of
              None \<Rightarrow> Some \<lparr>count = 1, resetTime = now + windowMs\<rparr>
            | Some r \<Rightarrow>
                if now > resetTime r then Some \<lparr>count = 1, resetTime = now + windowMs\<rparr>
                else if count r < maxRequests then Some (r\<lparr>count := count r + 1\<rparr>)
                else Some r)"
  using assms
  by (auto simp: checkRateLimit_swept AList.update_conv' AList.map_of_map_entry map_of_swept
      split: option.splits)


lemma same_window_later: "same_window t a b \<Longrightarrow> t \<le> t' \<Longrightarrow> same_window t' a b"
  by (auto simp: same_window_def expired_at_def split: option.splits)

lemma same_window_trans: "same_window t a b \<Longrightarrow> same_window t b c \<Longrightarrow> same_window t a c"
  by (auto simp: same_window_def)

lemma own_request:
  assumes "wf_rate_map m1" and "wf_rate_map m2"
    and "same_window t (map_of m1 ip) (map_of m2 ip)" and "t \<le> now"
  shows "fst (checkRateLimit ip 60 60000 now m1) = fst (checkRateLimit ip 60 60000 now m2) \<and>
         map_of (snd (checkRateLimit ip 60 60000 now m1)) ip =
         map_of (snd (checkRateLimit ip 60 60000 now m2)) ip"
  using assms
  by (auto simp: checkRateLimit_fst checkRateLimit_own same_window_def expired_at_def
      split: option.splits)

lemma other_request:
  assumes "wf_rate_map m" and "i \<noteq> ip"
  shows "same_window now (map_of (snd (checkRateLimit i 60 60000 now m)) ip) (map_of m ip)"
  using assms
  by (auto simp: checkRateLimit_other same_window_def expired_at_def split: option.splits)

lemma decisions_own_requests:
  assumes "wf_rate_map m1" and "wf_rate_map m2"
    and "same_window t (map_of m1 ip) (map_of m2 ip)"
    and "sorted (map snd reqs)" and "\<forall>q \<in> set reqs. t \<le> snd q"
  shows "decisions ip reqs m1 = decisions ip (filter (\<lambda>q. fst q = ip) reqs) m2"
  using assms
proof (induction reqs arbitrary: m1 m2 t)
  case Nil
  show ?case by simp
next
  case (Cons q reqs)
  obtain i now where q: "q = (i, now)" by (cases q)
  from Cons.prems q have t: "t \<le> now" by simp
  from Cons.prems q have later: "\<forall>q' \<in> set reqs. now \<le> snd q'" by auto
  from Cons.prems have srt: "sorted (map snd reqs)" by simp
  let ?m1 = "snd (checkRateLimit i 60 60000 now m1)"
  have wf1: "wf_rate_map ?m1" using Cons.prems(1) by (rule wf_checkRateLimit)
  show ?case
  proof (cases "i = ip")
    case True
    let ?m2 = "snd (checkRateLimit ip 60 60000 now m2)"
    have wf2: "wf_rate_map ?m2" using Cons.prems(2) by (rule wf_checkRateLimit)
    from own_request [OF Cons.prems(1) Cons.prems(2) Cons.prems(3) t]
    have same: "fst (checkRateLimit ip 60 60000 now m1) = fst (checkRateLimit ip 60 60000 now m2)"
      and rec: "map_of (snd (checkRateLimit ip 60 60000 now m1)) ip = map_of ?m2 ip"
      by simp_all
    from rec have "same_window now (map_of (snd (checkRateLimit ip 60 60000 now m1)) ip) (map_of ?m2 ip)"
      by (simp add: same_window_def)
    from Cons.IH [OF _ wf2 this srt later] wf1 True
    have "decisions ip reqs (snd (checkRateLimit ip 60 60000 now m1)) =
          decisions ip (filter (\<lambda>q. fst q = ip) reqs) ?m2"
      by simp
    with same True q show ?thesis by (simp add: split_beta)
  next
    case False
    from other_request [OF Cons.prems(1) False]
    have "same_window now (map_of ?m1 ip) (map_of m1 ip)" .
    moreover from Cons.prems(3) t have "same_window now (map_of m1 ip) (map_of m2 ip)"
      by (rule same_window_later)
    ultimately have "same_window now (map_of ?m1 ip) (map_of m2 ip)"
      by (rule same_window_trans)
    from Cons.IH [OF wf1 Cons.prems(2) this srt later]
    show ?thesis using False q by (simp add: split_beta)
  qed
qed

lemma decisions_filter:
  assumes "wf_rate_map m" and "sorted (map snd reqs)"
  shows "decisions ip reqs m = decisions ip (filter (\<lambda>q. fst q = ip) reqs) m"
proof (cases reqs)
  case Nil
  then show ?thesis by simp
next
  case (Cons q rest)
  with assms(2) have "\<forall>q' \<in> set reqs. snd q \<le> snd q'" by auto
  moreover have "same_window (snd q) (map_of m ip) (map_of m ip)" by (simp add: same_window_def)
  ultimately show ?thesis using assms by (intro decisions_own_requests)
qed

text \<open>The example map is well formed and holds 10002 entries.\<close>

lemma wf_example_big_map: "wf_rate_map example_big_map"
proof -
  have "inj_on (\<lambda>i. replicate (Suc i) CHR ''x'') A" for A :: "nat set"
    by (rule inj_onI) (metis length_replicate nat.inject)
  then have "distinct (map (\<lambda>i. replicate (Suc i) CHR ''x'') [0..<10000])"
    by (simp add: distinct_map)
  then show ?thesis
    by (auto simp: wf_rate_map_def example_big_map_def comp_def)
qed

lemma length_example_big_map: "length example_big_map = 10002"
  by (simp add: example_big_map_def)

lemma example_big_map_old: "map_of example_big_map ''old'' = Some \<lparr>count = 60, resetTime = 5\<rparr>"
  by (simp add: example_big_map_def)

lemma example_big_map_live: "map_of example_big_map ''live'' = Some \<lparr>count = 3, resetTime = 100500\<rparr>"
  by (simp add: example_big_map_def)

lemma sweep_decisions:
  assumes "wf_rate_map m" and "sorted (map snd reqs)" and "\<forall>q \<in> set reqs. now \<le> snd q"
  shows "decisions ip reqs (sweep (now - 60000) m m) = decisions ip reqs m"
proof -
  have "same_window now (map_of (sweep (now - 60000) m m) ip) (map_of m ip)"
    using assms(1)
    by (auto simp: map_of_sweep_self same_window_def expired_at_def split: option.splits)
  from decisions_own_requests [OF wf_sweep [OF assms(1)] assms(1) this assms(2,3)]
  show ?thesis using decisions_filter [OF assms(1,2), of ip] by simp
qed

text \<open>
  C9: the decisions of \<open>checkRateLimit\<close> for one client are those it gets when only its
  own requests are served: two runs from the same map whose requests of that client are
  the same (same order, same clock readings) give it the same decisions, whatever the
  other clients send in between. The requests of a run are served in the order of the
  clock (readings never decrease along a run); the map is any JavaScript \<open>Map\<close>, also one
  above the cleanup threshold.
\<close>

theorem rate_limit_noninterference:
  assumes "wf_rate_map m"
    and "sorted (map snd reqs1)" and "sorted (map snd reqs2)"
    and "filter (\<lambda>q. fst q = ip) reqs1 = filter (\<lambda>q. fst q = ip) reqs2"
  shows "decisions ip reqs1 m = decisions ip reqs2 m \<and>
         decisions ip reqs1 m = decisions ip (filter (\<lambda>q. fst q = ip) reqs1) m"
  using decisions_filter [OF assms(1,2), of ip] decisions_filter [OF assms(1,3), of ip] assms(4)
  by simp

theorem rate_limit_noninterference_witness:
  "wf_rate_map example_big_map \<and> length example_big_map > 10000 \<and>
   decisions ''live'' [(''live'', 100000), (''other'', 100001), (''old'', 170000), (''live'', 170001)]
     example_big_map =
   decisions ''live'' [(''live'', 100000), (''live'', 170001)] example_big_map"
  using rate_limit_noninterference
    [of example_big_map
        "[(''live'', 100000), (''other'', 100001), (''old'', 170000), (''live'', 170001)]"
        "[(''live'', 100000), (''live'', 170001)]" "''live''"]
  by (simp add: wf_example_big_map length_example_big_map)

text \<open>
  C6: \<open>checkRateLimit\<close> leaves the records of the other clients as they are while the map
  holds at most 10000 entries; above 10000 entries it deletes, among them, exactly the
  records whose \<open>resetTime\<close> is more than 60000 ms before the current time; a record whose
  window is still running (\<open>resetTime \<ge> now\<close>) is in the map after the call, with the same
  \<open>resetTime\<close>; and the sweep changes no decision of any client in the requests served
  from then on (clock readings not before the sweep and never decreasing).
\<close>

theorem cleanup_sweep:
  assumes "wf_rate_map m"
  shows "(length m \<le> 10000 \<longrightarrow>
            (\<forall>k. k \<noteq> ip \<longrightarrow> map_of (snd (checkRateLimit ip 60 60000 now m)) k = map_of m k)) \<and>
         (length m > 10000 \<longrightarrow>
            (\<forall>k. k \<noteq> ip \<longrightarrow>
               map_of (snd (checkRateLimit ip 60 60000 now m)) k =
                 (case map_of m k of None \<Rightarrow> None
                  | Some r \<Rightarrow> if resetTime r < now - 60000 then None else Some r))) \<and>
         (\<forall>k r. map_of m k = Some r \<and> resetTime r \<ge> now \<longrightarrow>
            (\<exists>r'. map_of (snd (checkRateLimit ip 60 60000 now m)) k = Some r' \<and>
                  resetTime r' = resetTime r \<and> (k \<noteq> ip \<longrightarrow> r' = r))) \<and>
         (sorted (map snd reqs) \<and> (\<forall>q \<in> set reqs. now \<le> snd q) \<longrightarrow>
            decisions client reqs (sweep (now - 60000) m m) = decisions client reqs m)"
proof (intro conjI impI allI)
  fix k assume "length m \<le> 10000" "k \<noteq> ip"
  then show "map_of (snd (checkRateLimit ip 60 60000 now m)) k = map_of m k"
    using assms by (simp add: checkRateLimit_other)
next
  fix k assume "length m > 10000" "k \<noteq> ip"
  then show "map_of (snd (checkRateLimit ip 60 60000 now m)) k =
      (case map_of m k of None \<Rightarrow> None | Some r \<Rightarrow> if resetTime r < now - 60000 then None else Some r)"
    using assms by (simp add: checkRateLimit_other)
next
  fix k r assume live: "map_of m k = Some r \<and> resetTime r \<ge> now"
  show "\<exists>r'. map_of (snd (checkRateLimit ip 60 60000 now m)) k = Some r' \<and>
             resetTime r' = resetTime r \<and> (k \<noteq> ip \<longrightarrow> r' = r)"
  proof (cases "k = ip")
    case True
    with live assms show ?thesis by (simp add: checkRateLimit_own)
  next
    case False
    with live assms show ?thesis by (simp add: checkRateLimit_other)
  qed
next
  assume "sorted (map snd reqs) \<and> (\<forall>q \<in> set reqs. now \<le> snd q)"
  with assms show "decisions client reqs (sweep (now - 60000) m m) = decisions client reqs m"
    by (simp add: sweep_decisions)
qed

theorem cleanup_sweep_witness:
  "wf_rate_map example_big_map \<and> length example_big_map > 10000 \<and>
   map_of (snd (checkRateLimit ''203.0.113.7'' 60 60000 100000 example_big_map)) ''old'' = None \<and>
   map_of (snd (checkRateLimit ''203.0.113.7'' 60 60000 100000 example_big_map)) ''live'' =
     Some \<lparr>count = 3, resetTime = 100500\<rparr> \<and>
   map_of (snd (checkRateLimit ''203.0.113.7'' 60 60000 100000 [(''old'', \<lparr>count = 60, resetTime = 5\<rparr>)])) ''old'' =
     Some \<lparr>count = 60, resetTime = 5\<rparr> \<and>
   decisions ''old'' [(''live'', 100000), (''old'', 100001)] (sweep (100000 - 60000) example_big_map example_big_map) =
   decisions ''old'' [(''live'', 100000), (''old'', 100001)] example_big_map"
proof -
  let ?small = "[(''old'', \<lparr>count = 60, resetTime = 5\<rparr>)]"
  note big = cleanup_sweep [OF wf_example_big_map, of "''203.0.113.7''" 100000
      "[(''live'', 100000), (''old'', 100001)]" "''old''"]
  have "wf_rate_map ?small" by (simp add: wf_rate_map_def)
  note small = cleanup_sweep [OF this, of "''203.0.113.7''" 100000 "[]" "''old''"]
  from big have swept: "map_of (snd (checkRateLimit ''203.0.113.7'' 60 60000 100000 example_big_map)) k =
      (case map_of example_big_map k of None \<Rightarrow> None
       | Some r \<Rightarrow> if resetTime r < 100000 - 60000 then None else Some r)"
    if "k \<noteq> ''203.0.113.7''" for k
    using that by (simp add: length_example_big_map)
  from swept [of "''old''"]
  have old: "map_of (snd (checkRateLimit ''203.0.113.7'' 60 60000 100000 example_big_map)) ''old'' = None"
    by (simp add: example_big_map_old)
  from swept [of "''live''"]
  have live: "map_of (snd (checkRateLimit ''203.0.113.7'' 60 60000 100000 example_big_map)) ''live'' =
      Some \<lparr>count = 3, resetTime = 100500\<rparr>"
    by (simp add: example_big_map_live)
  from small have kept: "map_of (snd (checkRateLimit ''203.0.113.7'' 60 60000 100000 ?small)) k =
      map_of ?small k" if "k \<noteq> ''203.0.113.7''" for k
    using that by simp
  from kept [of "''old''"]
  have few: "map_of (snd (checkRateLimit ''203.0.113.7'' 60 60000 100000 ?small)) ''old'' =
      Some \<lparr>count = 60, resetTime = 5\<rparr>"
    by simp
  from big have same:
    "decisions ''old'' [(''live'', 100000), (''old'', 100001)]
       (sweep (100000 - 60000) example_big_map example_big_map) =
     decisions ''old'' [(''live'', 100000), (''old'', 100001)] example_big_map"
    by simp
  from old live few same show ?thesis
    by (simp add: wf_example_big_map length_example_big_map)
qed

text \<open>
  The handler through its effect on the map, and the status it gives to a GET request
  whose database connection is available.
\<close>

lemma responses_to_Nil: "responses_to ip [] st = []"
  by (simp add: responses_to_def)

lemma responses_to_Cons:
  "responses_to ip ((req, e) # rs) st =
     (if clientIp_of req = ip then [fst (rate_limited_handler req e st)] else []) @
     responses_to ip rs (snd (snd (rate_limited_handler req e st)))"
  by (simp add: responses_to_def split: prod.splits)

lemma handler_rateLimitMap:
  "rateLimitMap (snd (snd (rate_limited_handler req e st))) =
     (if req_method req \<noteq> ''GET'' then rateLimitMap st
      else snd (checkRateLimit (clientIp_of req) 60 60000 (date_now e) (rateLimitMap st)))"
  by (auto simp: rate_limited_handler_def getSql_def Let_def
      split: prod.splits sum.splits option.splits)

lemma handler_GET_status:
  assumes "req_method req = ''GET''" and "neon_call e = Inr sql"
  shows "status (fst (rate_limited_handler req e st)) =
           (if fst (checkRateLimit (clientIp_of req) 60 60000 (date_now e) (rateLimitMap st))
            then 200 else 429)"
  using assms
  by (auto simp: rate_limited_handler_def getSql_def Let_def rate_limit_exceeded_def
      split: prod.splits sum.splits option.splits)

lemma handler_429_header:
  "status (fst (rate_limited_handler req e st)) = 429 \<Longrightarrow>
   map_of (headers (fst (rate_limited_handler req e st))) ''Retry-After'' = Some ''60''"
  by (auto simp: rate_limited_handler_def Let_def rate_limit_exceeded_def method_not_allowed_def
      connection_failed_def split: prod.splits sum.splits if_splits)

lemma responses_to_429_header:
  "\<forall>resp \<in> set (responses_to ip rs st).
     status resp = 429 \<longrightarrow> map_of (headers resp) ''Retry-After'' = Some ''60''"
proof (induction rs arbitrary: st)
  case Nil
  show ?case by (simp add: responses_to_Nil)
next
  case (Cons q rs)
  obtain req e where q: "q = (req, e)" by (cases q)
  show ?case unfolding q using Cons.IH handler_429_header [of req e st]
    by (auto simp: responses_to_Cons)
qed

lemma handler_wf:
  "wf_rate_map (rateLimitMap st) \<Longrightarrow>
   wf_rate_map (rateLimitMap (snd (snd (rate_limited_handler req e st))))"
  by (simp add: handler_rateLimitMap wf_checkRateLimit)

lemma window_statuses:
  assumes "wf_rate_map (rateLimitMap st)"
    and "map_of (rateLimitMap st) ip = Some r"
    and "\<forall>q \<in> set rs. date_now (snd q) \<le> resetTime r"
    and "\<forall>q \<in> set rs. clientIp_of (fst q) = ip \<longrightarrow>
           req_method (fst q) = ''GET'' \<and> neon_call (snd q) = Inr NeonQueryFunction"
  shows "map status (responses_to ip rs st) =
           replicate (min (length (filter (\<lambda>q. clientIp_of (fst q) = ip) rs)) (nat (60 - count r))) 200 @
           replicate (length (filter (\<lambda>q. clientIp_of (fst q) = ip) rs) - nat (60 - count r)) 429"
  using assms
proof (induction rs arbitrary: st r)
  case Nil
  show ?case by (simp add: responses_to_Nil)
next
  case (Cons q rs)
  obtain req e where q: "q = (req, e)" by (cases q)
  let ?st = "snd (snd (rate_limited_handler req e st))"
  from Cons.prems(3) q have now: "date_now e \<le> resetTime r" by simp
  have wf': "wf_rate_map (rateLimitMap ?st)" using Cons.prems(1) by (rule handler_wf)
  show ?case
  proof (cases "clientIp_of req = ip")
    case True
    with Cons.prems(4) q have get: "req_method req = ''GET''" and db: "neon_call e = Inr NeonQueryFunction"
      by simp_all
    have allowed: "fst (checkRateLimit ip 60 60000 (date_now e) (rateLimitMap st)) = (count r < 60)"
      using Cons.prems(2) now by (simp add: checkRateLimit_fst)
    have st1: "status (fst (rate_limited_handler req e st)) = (if count r < 60 then 200 else 429)"
      using handler_GET_status [OF get db, of st] True allowed by simp
    let ?r = "if count r < 60 then r\<lparr>count := count r + 1\<rparr> else r"
    have rec: "map_of (rateLimitMap ?st) ip = Some ?r"
      using Cons.prems(1,2) now get True
      by (simp add: handler_rateLimitMap checkRateLimit_own)
    have later: "\<forall>q \<in> set rs. date_now (snd q) \<le> resetTime ?r"
      using Cons.prems(3) by simp
    have rest: "\<forall>q \<in> set rs. clientIp_of (fst q) = ip \<longrightarrow>
           req_method (fst q) = ''GET'' \<and> neon_call (snd q) = Inr NeonQueryFunction"
      using Cons.prems(4) by simp
    note IH = Cons.IH [OF wf' rec later rest]
    show ?thesis
    proof (cases "count r < 60")
      case less: True
      then have n: "nat (60 - count r) = Suc (nat (60 - (count r + 1)))" by simp
      show ?thesis unfolding q using IH st1 True less
        by (simp add: responses_to_Cons n)
    next
      case False
      then have n: "nat (60 - count r) = 0" by simp
      show ?thesis unfolding q using IH st1 True False
        by (simp add: responses_to_Cons n)
    qed
  next
    case False
    have rec: "map_of (rateLimitMap ?st) ip = Some r"
      using Cons.prems(1,2) now False
      by (simp add: handler_rateLimitMap checkRateLimit_other)
    have later: "\<forall>q \<in> set rs. date_now (snd q) \<le> resetTime r"
      using Cons.prems(3) by simp
    have rest: "\<forall>q \<in> set rs. clientIp_of (fst q) = ip \<longrightarrow>
           req_method (fst q) = ''GET'' \<and> neon_call (snd q) = Inr NeonQueryFunction"
      using Cons.prems(4) by simp
    from Cons.IH [OF wf' rec later rest]
    show ?thesis unfolding q using False by (simp add: responses_to_Cons)
  qed
qed

lemma length_responses_to:
  "length (responses_to ip rs st) = length (filter (\<lambda>q. clientIp_of (fst q) = ip) rs)"
proof (induction rs arbitrary: st)
  case Nil
  show ?case by (simp add: responses_to_Nil)
next
  case (Cons q rs)
  obtain req e where q: "q = (req, e)" by (cases q)
  show ?case unfolding q using Cons.IH by (simp add: responses_to_Cons)
qed

lemma nth_replicate_append:
  "k < a + b \<Longrightarrow> (replicate a x @ replicate b y) ! k = (if k < a then x else y)"
  by (simp add: nth_append)

text \<open>
  C1: a request of client \<open>ip\<close> that finds no record, or an expired one, opens a window of
  60000 ms. Of the requests of \<open>ip\<close> from that one on, as long as all requests served fall
  within the window, the first 60 get status 200 and every later one (the 61st first)
  gets status 429 with the header \<open>Retry-After: 60\<close>. The requests of \<open>ip\<close> are GET
  requests whose call of \<open>neon()\<close> returns; other clients may send anything in between.
\<close>

theorem rate_limit_window:
  assumes "wf_rate_map (rateLimitMap st)"
    and "clientIp_of req0 = ip"
    and "map_of (rateLimitMap st) ip = None \<or>
         (\<exists>r. map_of (rateLimitMap st) ip = Some r \<and> date_now e0 > resetTime r)"
    and "\<forall>q \<in> set rs. date_now (snd q) \<le> date_now e0 + 60000"
    and "\<forall>q \<in> set ((req0, e0) # rs). clientIp_of (fst q) = ip \<longrightarrow>
           req_method (fst q) = ''GET'' \<and> neon_call (snd q) = Inr NeonQueryFunction"
  shows "length (responses_to ip ((req0, e0) # rs) st) =
           Suc (length (filter (\<lambda>q. clientIp_of (fst q) = ip) rs)) \<and>
         (\<forall>k < length (responses_to ip ((req0, e0) # rs) st).
            (k < 60 \<longrightarrow> status (responses_to ip ((req0, e0) # rs) st ! k) = 200) \<and>
            (60 \<le> k \<longrightarrow>
               status (responses_to ip ((req0, e0) # rs) st ! k) = 429 \<and>
               map_of (headers (responses_to ip ((req0, e0) # rs) st ! k)) ''Retry-After'' = Some ''60''))"
proof -
  let ?st = "snd (snd (rate_limited_handler req0 e0 st))"
  let ?r = "\<lparr>count = 1, resetTime = date_now e0 + 60000\<rparr>"
  let ?n = "length (filter (\<lambda>q. clientIp_of (fst q) = ip) rs)"
  let ?resps = "responses_to ip ((req0, e0) # rs) st"
  from assms(2,5) have get: "req_method req0 = ''GET''" and db: "neon_call e0 = Inr NeonQueryFunction"
    by simp_all
  have allowed: "fst (checkRateLimit ip 60 60000 (date_now e0) (rateLimitMap st))"
    using assms(3) by (auto simp: checkRateLimit_fst)
  have st0: "status (fst (rate_limited_handler req0 e0 st)) = 200"
    using handler_GET_status [OF get db, of st] allowed assms(2) by simp
  have wf': "wf_rate_map (rateLimitMap ?st)" using assms(1) by (rule handler_wf)
  have rec: "map_of (rateLimitMap ?st) ip = Some ?r"
    using assms(1,2,3) get by (auto simp: handler_rateLimitMap checkRateLimit_own)
  have later: "\<forall>q \<in> set rs. date_now (snd q) \<le> resetTime ?r"
    using assms(4) by simp
  have rest: "\<forall>q \<in> set rs. clientIp_of (fst q) = ip \<longrightarrow>
         req_method (fst q) = ''GET'' \<and> neon_call (snd q) = Inr NeonQueryFunction"
    using assms(5) by simp
  from window_statuses [OF wf' rec later rest]
  have statuses: "map status ?resps = replicate (Suc (min ?n 59)) 200 @ replicate (?n - 59) 429"
    using st0 assms(2) by (simp add: responses_to_Cons)
  have len: "length ?resps = Suc ?n"
    by (simp add: length_responses_to assms(2))
  have "status (?resps ! k) = (if k < 60 then 200 else 429)" if "k < length ?resps" for k
  proof -
    from that have "status (?resps ! k) = map status ?resps ! k" by simp
    also have "\<dots> = (if k < Suc (min ?n 59) then 200 else 429)"
      unfolding statuses using that len by (intro nth_replicate_append) arith
    also have "\<dots> = (if k < 60 then 200 else 429)"
      using that len by auto
    finally show ?thesis .
  qed
  moreover have "map_of (headers (?resps ! k)) ''Retry-After'' = Some ''60''"
    if "k < length ?resps" and "status (?resps ! k) = 429" for k
    using responses_to_429_header [of ip "(req0, e0) # rs" st] that nth_mem by blast
  ultimately show ?thesis using len by auto
qed

theorem rate_limit_window_witness:
  "length (responses_to ''203.0.113.7''
             ((example_request, example_env 1000) # replicate 60 (example_request, example_env 2000))
             \<lparr>cachedSql = None, rateLimitMap = []\<rparr>) = 61 \<and>
   status (responses_to ''203.0.113.7''
             ((example_request, example_env 1000) # replicate 60 (example_request, example_env 2000))
             \<lparr>cachedSql = None, rateLimitMap = []\<rparr> ! 0) = 200 \<and>
   status (responses_to ''203.0.113.7''
             ((example_request, example_env 1000) # replicate 60 (example_request, example_env 2000))
             \<lparr>cachedSql = None, rateLimitMap = []\<rparr> ! 59) = 200 \<and>
   status (responses_to ''203.0.113.7''
             ((example_request, example_env 1000) # replicate 60 (example_request, example_env 2000))
             \<lparr>cachedSql = None, rateLimitMap = []\<rparr> ! 60) = 429 \<and>
   map_of (headers (responses_to ''203.0.113.7''
             ((example_request, example_env 1000) # replicate 60 (example_request, example_env 2000))
             \<lparr>cachedSql = None, rateLimitMap = []\<rparr> ! 60)) ''Retry-After'' = Some ''60''"
proof -
  let ?rs = "replicate 60 (example_request, example_env 2000)"
  let ?st = "\<lparr>cachedSql = None, rateLimitMap = []\<rparr>"
  have ip: "clientIp_of example_request = ''203.0.113.7''"
    by (simp add: clientIp_of_def example_request_def)
  have h1: "wf_rate_map (rateLimitMap ?st)" by (simp add: wf_rate_map_def)
  have h3: "map_of (rateLimitMap ?st) ''203.0.113.7'' = None \<or>
            (\<exists>r. map_of (rateLimitMap ?st) ''203.0.113.7'' = Some r \<and> date_now (example_env 1000) > resetTime r)"
    by simp
  have h4: "\<forall>q \<in> set ?rs. date_now (snd q) \<le> date_now (example_env 1000) + 60000"
    by (simp add: example_env_def)
  have h5: "\<forall>q \<in> set ((example_request, example_env 1000) # ?rs).
              clientIp_of (fst q) = ''203.0.113.7'' \<longrightarrow>
              req_method (fst q) = ''GET'' \<and> neon_call (snd q) = Inr NeonQueryFunction"
    by (simp add: example_env_def example_request_def)
  from rate_limit_window [OF h1 ip h3 h4 h5]
  show ?thesis by (simp add: ip)
qed

section \<open>Properties of the limit parameter\<close>

text \<open>
  C5: the clamp of the \<open>limit\<close> query parameter maps the input \<open>"0"\<close> to the effective
  limit 1, the input \<open>"500"\<close> to 100 and the input \<open>"42"\<close> to 42.
\<close>

theorem limit_clamp_examples:
  "effective_limit (Some ''0'') = Num 1 \<and>
   effective_limit (Some ''500'') = Num 100 \<and>
   effective_limit (Some ''42'') = Num 42"
  by code_simp


text \<open>
  Where \<open>parseInt\<close> finds a number, the effective limit is that number clamped to the
  range from 1 to 100, and an absent parameter gives 10.
\<close>

lemma effective_limit_numeric:
  assumes "parseInt (limit_or_default p) = Num n"
  shows "effective_limit p = Num (min (max n 1) 100)"
  using assms by (simp add: effective_limit_def)

lemma effective_limit_absent: "effective_limit None = Num 10"
  by code_simp

text \<open>
  C2: the effective limit of a GET request is meant to lie between 1 and 100 for every
  value of the \<open>limit\<close> parameter. For a value with no leading digits, such as \<open>abc\<close>,
  \<open>parseInt\<close> answers \<open>NaN\<close>, \<open>Math.max\<close> and \<open>Math.min\<close> hand it on, and the handler
  answers 200 with the limit \<open>NaN\<close>, which is no number of that range.
\<close>

theorem limit_not_a_number:
  "effective_limit (Some ''abc'') = NaN \<and>
   (let (resp, logs, st) =
      rate_limited_handler
        \<lparr>req_method = ''GET'', limit_param = Some ''abc'', context_ip = Some ''203.0.113.7''\<rparr>
        \<lparr>date_now = 1000, date_now_headers = 1000, iso_timestamp = ''2025-01-01T00:00:00.000Z'',
         response_time = ''0.10'', neon_call = Inr NeonQueryFunction\<rparr>
        \<lparr>cachedSql = None, rateLimitMap = []\<rparr>
    in status resp = 200 \<and> map_of (body resp) ''limit'' = Some (JNumber NaN))"
  by code_simp

section \<open>Properties of the error responses\<close>

text \<open>
  The handler with the rate limiter refuses every method other than GET with status 405,
  and each of its responses other than 200 is a JSON error body with status 405, 429
  or 500. The handler of \<open>db-test.ts\<close> answers 200 or 500.
\<close>

lemma rate_limited_handler_405:
  "req_method req \<noteq> ''GET'' \<Longrightarrow> rate_limited_handler req e st = (method_not_allowed, [], st)"
  by (simp add: rate_limited_handler_def)

lemma rate_limited_handler_status:
  "status (fst (rate_limited_handler req e st)) \<in> {200, 405, 429, 500}"
  by (auto simp: rate_limited_handler_def method_not_allowed_def rate_limit_exceeded_def
      connection_failed_def Let_def split: prod.splits sum.splits)

lemma rate_limited_handler_error_body:
  "status (fst (rate_limited_handler req e st)) \<noteq> 200 \<Longrightarrow>
   (\<exists>msg. map_of (body (fst (rate_limited_handler req e st))) ''error'' = Some (JString msg)) \<and>
   map_of (headers (fst (rate_limited_handler req e st))) ''Content-Type'' = Some ''application/json''"
  by (auto simp: rate_limited_handler_def method_not_allowed_def rate_limit_exceeded_def
      connection_failed_def Let_def split: prod.splits sum.splits)

lemma db_test_handler_status:
  "status (fst (db_test_handler req e)) = (case neon_call e of Inr _ \<Rightarrow> 200 | Inl _ \<Rightarrow> 500)"
  by (auto simp: db_test_handler_def connection_failed_def split: sum.splits)

text \<open>
  The handler of \<open>db-test.ts\<close> never reads the request: a POST request, with \<open>neon()\<close>
  returning, gets status 200 and a body without an \<open>error\<close> field, not status 405.
\<close>

theorem db_test_handler_ignores_method:
  "status (fst (db_test_handler
                  \<lparr>req_method = ''POST'', limit_param = None, context_ip = Some ''203.0.113.7''\<rparr>
                  (example_env 1000))) = 200 \<and>
   status (fst (db_test_handler
                  \<lparr>req_method = ''POST'', limit_param = None, context_ip = Some ''203.0.113.7''\<rparr>
                  (example_env 1000))) \<noteq> 405 \<and>
   map_of (body (fst (db_test_handler
                  \<lparr>req_method = ''POST'', limit_param = None, context_ip = Some ''203.0.113.7''\<rparr>
                  (example_env 1000)))) ''error'' = None"
  by code_simp

lemma db_test_handler_any_request: "db_test_handler req e = db_test_handler req' e"
  by (simp add: db_test_handler_def)

lemma db_test_handler_error_body:
  "status (fst (db_test_handler req e)) \<noteq> 200 \<Longrightarrow>
   status (fst (db_test_handler req e)) = 500 \<and>
   (\<exists>msg. map_of (body (fst (db_test_handler req e))) ''error'' = Some (JString msg)) \<and>
   map_of (headers (fst (db_test_handler req e))) ''Content-Type'' = Some ''application/json''"
  by (auto simp: db_test_handler_def connection_failed_def split: sum.splits)

text \<open>
  C3, amended: for every request whose method is not GET, the handler with the rate
  limiter returns the JSON error body \<open>{"error": "Method not allowed"}\<close> with status
  405; the handler of \<open>db-test.ts\<close> answers every request without regard to its method,
  with status 200 or 500. Every response of either handler has status 200, 405, 429 or
  500, and every response other than 200 is a JSON body with an \<open>error\<close> field.
\<close>

theorem handler_error_statuses:
  "(req_method req \<noteq> ''GET'' \<longrightarrow>
      rate_limited_handler req e st = (method_not_allowed, [], st)) \<and>
   status method_not_allowed = 405 \<and>
   body method_not_allowed = [(''error'', JString ''Method not allowed'')] \<and>
   map_of (headers method_not_allowed) ''Content-Type'' = Some ''application/json'' \<and>
   status (fst (rate_limited_handler req e st)) \<in> {200, 405, 429, 500} \<and>
   (status (fst (rate_limited_handler req e st)) \<noteq> 200 \<longrightarrow>
      (\<exists>msg. map_of (body (fst (rate_limited_handler req e st))) ''error'' = Some (JString msg)) \<and>
      map_of (headers (fst (rate_limited_handler req e st))) ''Content-Type'' =
        Some ''application/json'') \<and>
   db_test_handler req e = db_test_handler req' e \<and>
   status (fst (db_test_handler req e)) \<in> {200, 500} \<and>
   (status (fst (db_test_handler req e)) \<noteq> 200 \<longrightarrow>
      (\<exists>msg. map_of (body (fst (db_test_handler req e))) ''error'' = Some (JString msg)) \<and>
      map_of (headers (fst (db_test_handler req e))) ''Content-Type'' = Some ''application/json'')"
proof -
  have "status (fst (db_test_handler req e)) \<in> {200, 500}"
    by (simp add: db_test_handler_status split: sum.splits)
  then show ?thesis
    using rate_limited_handler_405 [of req e st] rate_limited_handler_status [of req e st]
      rate_limited_handler_error_body [of req e st] db_test_handler_any_request [of req e req']
      db_test_handler_error_body [of req e]
    by (simp add: method_not_allowed_def)
qed

theorem handler_error_statuses_witness:
  "req_method \<lparr>req_method = ''POST'', limit_param = None, context_ip = Some ''203.0.113.7''\<rparr>
     \<noteq> ''GET'' \<and>
   status (fst (rate_limited_handler
                  \<lparr>req_method = ''POST'', limit_param = None, context_ip = Some ''203.0.113.7''\<rparr>
                  (example_env 1000) \<lparr>cachedSql = None, rateLimitMap = []\<rparr>)) = 405 \<and>
   map_of (body (fst (rate_limited_handler
                  \<lparr>req_method = ''POST'', limit_param = None, context_ip = Some ''203.0.113.7''\<rparr>
                  (example_env 1000) \<lparr>cachedSql = None, rateLimitMap = []\<rparr>))) ''error'' =
     Some (JString ''Method not allowed'') \<and>
   map_of (headers (fst (rate_limited_handler
                  \<lparr>req_method = ''POST'', limit_param = None, context_ip = Some ''203.0.113.7''\<rparr>
                  (example_env 1000) \<lparr>cachedSql = None, rateLimitMap = []\<rparr>))) ''Content-Type'' =
     Some ''application/json'' \<and>
   db_test_handler
     \<lparr>req_method = ''POST'', limit_param = None, context_ip = Some ''203.0.113.7''\<rparr>
     (example_env 1000) =
   db_test_handler example_request (example_env 1000)"
  using handler_error_statuses
    [of "\<lparr>req_method = ''POST'', limit_param = None, context_ip = Some ''203.0.113.7''\<rparr>"
        "example_env 1000" "\<lparr>cachedSql = None, rateLimitMap = []\<rparr>" example_request]
  by simp

text \<open>
  C4: when \<open>neon()\<close> throws during a request, each handler catches the exception and
  answers with status 500 and a JSON body that carries the fields \<open>error\<close>, \<open>message\<close>
  and \<open>timestamp\<close>; the stack of the exception goes to \<open>console.error\<close> and the
  response is the same whatever the stack is. (The handler with the rate limiter reaches
  the call for a GET request that the limiter lets through, with no connection cached.)
\<close>

theorem thrown_mapped_to_500:
  "neon_call e = Inl err \<Longrightarrow>
   db_test_handler req e =
     (connection_failed err e,
      [console_error ''Database error:''
         [(''message'', JString (error_message err)), (''stack'', error_stack err),
          (''timestamp'', JString (iso_timestamp e)),
          (''responseTime'', JString (response_time e @ ''ms''))]]) \<and>
   (req_method req = ''GET'' \<and> cachedSql st = None \<and>
    fst (checkRateLimit (clientIp_of req) 60 60000 (date_now e) (rateLimitMap st)) \<longrightarrow>
    fst (rate_limited_handler req e st) = connection_failed err e \<and>
    fst (snd (rate_limited_handler req e st)) =
      [console_error ''Database error:''
         [(''message'', JString (error_message err)), (''stack'', error_stack err),
          (''timestamp'', JString (iso_timestamp e)),
          (''responseTime'', JString (response_time e @ ''ms'')),
          (''ip'', JString (clientIp_of req))]]) \<and>
   status (connection_failed err e) = 500 \<and>
   headers (connection_failed err e) = [(''Content-Type'', ''application/json'')] \<and>
   body (connection_failed err e) =
     [(''error'', JString ''Database connection failed''),
      (''message'', JString (error_message err)),
      (''timestamp'', JString (iso_timestamp e))] \<and>
   (\<forall>m s s'. connection_failed (Error_object m s) e = connection_failed (Error_object m s') e)"
  by (auto simp: db_test_handler_def rate_limited_handler_def connection_failed_def getSql_def
      error_message_def Let_def split: prod.splits)

theorem thrown_mapped_to_500_witness:
  "(let e = \<lparr>date_now = 1000, date_now_headers = 1001, iso_timestamp = ''2025-01-01T00:00:00.000Z'',
              response_time = ''0.25'',
              neon_call = Inl (Error_object ''No database connection string''
                                 (Some ''Error: at neon (index.js:1:1)''))\<rparr>;
        req = \<lparr>req_method = ''GET'', limit_param = None, context_ip = Some ''203.0.113.7''\<rparr>;
        st = \<lparr>cachedSql = None, rateLimitMap = []\<rparr>
    in neon_call e = Inl (Error_object ''No database connection string''
                            (Some ''Error: at neon (index.js:1:1)'')) \<and>
       req_method req = ''GET'' \<and> cachedSql st = None \<and>
       fst (checkRateLimit (clientIp_of req) 60 60000 (date_now e) (rateLimitMap st)) \<and>
       status (fst (db_test_handler req e)) = 500 \<and>
       status (fst (rate_limited_handler req e st)) = 500 \<and>
       body (fst (rate_limited_handler req e st)) =
         [(''error'', JString ''Database connection failed''),
          (''message'', JString ''No database connection string''),
          (''timestamp'', JString ''2025-01-01T00:00:00.000Z'')] \<and>
       map_of (case fst (snd (rate_limited_handler req e st)) of
                 [console_error t d] \<Rightarrow> d | _ \<Rightarrow> []) ''stack''
         = Some (JString ''Error: at neon (index.js:1:1)''))"
  using thrown_mapped_to_500
    [of "\<lparr>date_now = 1000, date_now_headers = 1001, iso_timestamp = ''2025-01-01T00:00:00.000Z'',
          response_time = ''0.25'',
          neon_call = Inl (Error_object ''No database connection string''
                             (Some ''Error: at neon (index.js:1:1)''))\<rparr>"
        "Error_object ''No database connection string'' (Some ''Error: at neon (index.js:1:1)'')"
        "\<lparr>req_method = ''GET'', limit_param = None, context_ip = Some ''203.0.113.7''\<rparr>"
        "\<lparr>cachedSql = None, rateLimitMap = []\<rparr>"]
  by (simp add: Let_def checkRateLimit_def clientIp_of_def connection_failed_def
      error_message_def error_stack_def)

section \<open>Properties of the dashboard component\<close>

lemma lifecycle_aborted: "lifecycle evs True = replicate (length evs) []"
proof (induction evs)
  case Nil
  show ?case by simp
next
  case (Cons ev evs)
  then show ?case by (cases ev) (simp_all add: fetchCoins_def split: option.splits)
qed

lemma lifecycle_append:
  "lifecycle (xs @ ys) a = lifecycle xs a @ lifecycle ys (a \<or> cleanup_runs \<in> set xs)"
proof (induction xs arbitrary: a)
  case Nil
  show ?case by simp
next
  case (Cons ev xs)
  show ?case by (cases ev) (simp_all add: Cons.IH)
qed

text \<open>
  C8: once the cleanup function has run, no state setter is called any more. Whatever
  happened before the cleanup and whatever runs after it (the body of \<open>fetchCoins\<close>,
  completing or throwing, any number of times), every event after the cleanup calls no
  setter; and the body of \<open>fetchCoins\<close>, run with the signal aborted, calls none.
\<close>

theorem no_state_update_after_cleanup:
  "lifecycle (before @ cleanup_runs # after) False =
     lifecycle before False @ [] # replicate (length after) [] \<and>
   fetchCoins True failure = []"
  by (simp add: lifecycle_append lifecycle_aborted fetchCoins_def split: option.splits)

section \<open>Properties of the migration\<close>

text \<open>
  Besides the indexes of its \<open>CREATE INDEX\<close> statements, the migrated database holds the
  five unique indexes that enforce the primary keys and the unique constraints. On a
  database without Supabase's schema \<open>auth\<close> the migration stops at the first policy that
  calls \<open>auth.role()\<close>.
\<close>

lemma migration_constraint_indexes:
  "constraint_index_names (projr (apply_migration migration fresh_supabase_database)) =
     [''coins_pkey'', ''coins_symbol_key'', ''coin_price_history_pkey'',
      ''unique_coin_timestamp'', ''coin_news_pkey'']"
  by code_simp

lemma migration_without_auth_schema:
  "apply_migration migration empty_database = Inl (undefined_function ''auth.role'')"
  by code_simp

text \<open>
  C10: applied to the empty database of a new Supabase project, the migration succeeds;
  it creates exactly the 3 tables \<open>coins\<close>, \<open>coin_price_history\<close> and \<open>coin_news\<close> and
  exactly 11 indexes by its \<open>CREATE INDEX\<close> statements, and row-level security is
  enabled on all 3 tables.
\<close>

theorem migration_creates_schema:
  "table_names fresh_supabase_database = [] \<and>
   index_names fresh_supabase_database = [] \<and>
   \<not> isl (apply_migration migration fresh_supabase_database) \<and>
   table_names (projr (apply_migration migration fresh_supabase_database)) =
     [''coins'', ''coin_price_history'', ''coin_news''] \<and>
   length (table_names (projr (apply_migration migration fresh_supabase_database))) = 3 \<and>
   declared_index_names (projr (apply_migration migration fresh_supabase_database)) =
     [''idx_coins_symbol'', ''idx_coins_market_cap'', ''idx_coins_volume'',
      ''idx_coins_last_updated'', ''idx_coins_active'', ''idx_price_history_coin_id'',
      ''idx_price_history_timestamp'', ''idx_price_history_coin_timestamp'',
      ''idx_news_coin_id'', ''idx_news_published'', ''idx_news_sentiment''] \<and>
   length (declared_index_names (projr (apply_migration migration fresh_supabase_database))) = 11 \<and>
   rls_tables (projr (apply_migration migration fresh_supabase_database)) =
     [''coins'', ''coin_price_history'', ''coin_news'']"
  by code_simp

end
